theory Spec2Isabelle
  imports Main
begin

section \<open>Values, errors and the external lexicon\<close>

text \<open>
  The exceptions of \<^verbatim>\<open>ConceptGraph.py\<close>. The source raises plain \<^verbatim>\<open>Exception\<close>
  objects that differ in their message only; each message is one constructor, named after
  the kind of failure it reports:
  \<^item> \<open>InvalidArgument\<close>: "ConceptNode constructor: invalid argument type";
  \<^item> \<open>UnknownSense\<close>: "ConceptNode constructor: ... is not the name of a WordNet synset";
  \<^item> \<open>UnknownLabel\<close>: "from_descriptor: ... not found in Wordnet";
  \<^item> \<open>AmbiguousLabel\<close>: "from_descriptor: ... has multiple meanings";
  \<^item> \<open>NotSynonymous\<close>: "valid_add_descriptor: ... not a synonym";
  \<^item> \<open>DuplicateLabel\<close>: "valid_graph_node: new node already in graph";
  \<^item> \<open>DuplicateSense\<close>: "valid_graph_node: synonym of new node already in graph";
  \<^item> \<open>NodeNotFound\<close>: "... source node not in graph", "... target node not in graph",
    "... not in current graph";
  \<^item> \<open>NotAHypernym\<close>: "valid_graph_edge: the source is not a hypernym of the target";
  \<^item> \<open>RedundantEdge\<close>: "... already contains a path between the source and the target";
  \<^item> \<open>CycleDetected\<close>: "... already contains a path between the target and the source";
  \<^item> \<open>MultipleRoots\<close>: "add_edge: adding edge would create another root".

  The remaining constructors are the exceptions that Python, networkx and nltk raise by
  themselves.
\<close>

datatype error =
    InvalidArgument | UnknownSense | UnknownLabel | AmbiguousLabel | NotSynonymous
  | DuplicateLabel | DuplicateSense | NodeNotFound | NotAHypernym | RedundantEdge
  | CycleDetected | MultipleRoots
  | AttributeError | KeyError | IndexError
  | NetworkXError | NetworkXUnfeasible | WordNetError

text \<open>
  A method that mutates its receiver returns the state it leaves behind, whether it returns
  normally (\<open>Done\<close>) or raises (\<open>Raised\<close>): an exception does not undo the
  assignments made before it.
\<close>

datatype 's outcome = Done 's | Raised error 's

text \<open>
  WordNet (\<^verbatim>\<open>nltk.corpus.wordnet\<close>) is not part of the repository; it is a parameter.
  nltk compares synsets by their name, so a synset is its name:
  \<^item> \<open>wn_synset name\<close> is \<^verbatim>\<open>wn.synset(name)\<close>, \<open>None\<close> where nltk raises;
  \<^item> \<open>wn_synsets word\<close> is \<^verbatim>\<open>wn.synsets(word)\<close>;
  \<^item> \<open>wn_pos s\<close> is \<^verbatim>\<open>s.pos()\<close>;
  \<^item> \<open>wn_hypernym_paths s\<close> is \<^verbatim>\<open>s.hypernym_paths()\<close>, each path as the names of its
    synsets.
\<close>

record Lexicon =
  wn_synset :: "string \<Rightarrow> string option"
  wn_synsets :: "string \<Rightarrow> string list"
  wn_pos :: "string \<Rightarrow> string"
  wn_hypernym_paths :: "string \<Rightarrow> string list list"

section \<open>ConceptNode\<close>

text \<open>
  \<open>descriptors\<close> is a Python list (the constructor turns the set it is given into a list).
\<close>

record ConceptNode =
  id_networkx :: int
  descriptors :: "string list"
  synset_name :: string





definition valid_add_descriptor :: "Lexicon \<Rightarrow> ConceptNode \<Rightarrow> string \<Rightarrow> error + bool" where
  "valid_add_descriptor wn self descriptor =
     (case wn_synset wn (synset_name self) of
        None \<Rightarrow> Inl WordNetError
      | Some s \<Rightarrow> if s \<notin> set (wn_synsets wn descriptor) then Inl NotSynonymous else Inr True)"

text \<open>
  \<^verbatim>\<open>add_descriptor\<close> returns the node it leaves behind. In its last branch the source calls
  \<^verbatim>\<open>self.descriptors.add(descriptor)\<close> on a list, which has no method \<^verbatim>\<open>add\<close>: Python raises
  \<^verbatim>\<open>AttributeError\<close> and the list is as it was.
\<close>

definition add_descriptor :: "Lexicon \<Rightarrow> ConceptNode \<Rightarrow> string \<Rightarrow> error + ConceptNode" where
  "add_descriptor wn self descriptor =
     (if descriptor \<in> set (descriptors self) then Inr self
      else case valid_add_descriptor wn self descriptor of
             Inl e \<Rightarrow> Inl e
           | Inr ok \<Rightarrow> if ok then Inl AttributeError else Inr self)"

text \<open>\<^verbatim>\<open>__eq__\<close> between two nodes compares the two lists and the two names.\<close>

definition ConceptNode_eq :: "ConceptNode \<Rightarrow> ConceptNode \<Rightarrow> bool" where
  "ConceptNode_eq self other =
     (descriptors self = descriptors other \<and> synset_name self = synset_name other)"

text \<open>
  CPython's hash of an integer: the value modulo the Mersenne prime \<open>2^61 - 1\<close> with the
  sign kept, and -2 in place of -1.
\<close>

definition py_hash_int :: "int \<Rightarrow> int" where
  "py_hash_int n =
     (let h = sgn n * (\<bar>n\<bar> mod (2 ^ 61 - 1)) in if h = - 1 then - 2 else h)"

definition ConceptNode_hash :: "ConceptNode \<Rightarrow> int" where
  "ConceptNode_hash self = py_hash_int (id_networkx self)"

section \<open>ConceptEdge\<close>

record ConceptEdge =
  source :: ConceptNode
  target :: ConceptNode
  label :: "string option"

text \<open>
  \<^verbatim>\<open>ConceptEdge(node1, node2, info=None)\<close>; the type test of the constructor holds by typing.
\<close>

definition ConceptEdge_init :: "ConceptNode \<Rightarrow> ConceptNode \<Rightarrow> string option \<Rightarrow> ConceptEdge" where
  "ConceptEdge_init node1 node2 info = \<lparr>source = node1, target = node2, label = info\<rparr>"

text \<open>
  \<^verbatim>\<open>__eq__\<close>: the conditional expression binds weaker than \<^verbatim>\<open>and\<close>, so the source reads
  \<^verbatim>\<open>(a and b and c) if self.label is not None else True\<close>.
\<close>

definition ConceptEdge_eq :: "ConceptEdge \<Rightarrow> ConceptEdge \<Rightarrow> bool" where
  "ConceptEdge_eq self other =
     (if label self \<noteq> None
      then ConceptNode_eq (source self) (source other) \<and>
           ConceptNode_eq (target self) (target other) \<and>
           label self = label other
      else True)"

text \<open>
  \<^verbatim>\<open>hash((self.source, self.target))\<close>: the hash of a tuple is computed from the hashes of
  its components; it is kept here as the pair of them (no collision between different pairs).
\<close>

definition ConceptEdge_hash :: "ConceptEdge \<Rightarrow> int \<times> int" where
  "ConceptEdge_hash self = (ConceptNode_hash (source self), ConceptNode_hash (target self))"

section \<open>Python sets\<close>

text \<open>
  A Python set finds an element by its hash first and compares (\<^verbatim>\<open>entry == x\<close>) only the
  entries whose hash is the same. The elements are kept in a list.
\<close>

definition pyset_contains :: "('a \<Rightarrow> 'h) \<Rightarrow> ('a \<Rightarrow> 'a \<Rightarrow> bool) \<Rightarrow> 'a list \<Rightarrow> 'a \<Rightarrow> bool" where
  "pyset_contains hash eq s x = list_ex (\<lambda>entry. hash entry = hash x \<and> eq entry x) s"

definition pyset_add :: "('a \<Rightarrow> 'h) \<Rightarrow> ('a \<Rightarrow> 'a \<Rightarrow> bool) \<Rightarrow> 'a list \<Rightarrow> 'a \<Rightarrow> 'a list" where
  "pyset_add hash eq s x = (if pyset_contains hash eq s x then s else s @ [x])"

section \<open>The networkx DiGraph\<close>

text \<open>
  networkx is not part of the repository. Its \<^verbatim>\<open>DiGraph\<close> is modelled from its documented
  behaviour: a dictionary from node keys to attribute dictionaries and a collection of
  edges, both in insertion order. The keys that occur are integers (the \<^verbatim>\<open>id_networkx\<close> of a
  node) and, in a graph read from JSON, possibly strings.
\<close>

datatype key = KInt int | KStr string

datatype attrval = AInt int | AStr string | AStrList "string list"

fun dict_get :: "('k \<times> 'v) list \<Rightarrow> 'k \<Rightarrow> 'v option" where
  "dict_get [] k = None"
| "dict_get ((k', v) # kvs) k = (if k' = k then Some v else dict_get kvs k)"

fun dict_set :: "('k \<times> 'v) list \<Rightarrow> 'k \<Rightarrow> 'v \<Rightarrow> ('k \<times> 'v) list" where
  "dict_set [] k v = [(k, v)]"
| "dict_set ((k', v') # kvs) k v =
     (if k' = k then (k', v) # kvs else (k', v') # dict_set kvs k v)"

fun dict_update :: "('k \<times> 'v) list \<Rightarrow> ('k \<times> 'v) list \<Rightarrow> ('k \<times> 'v) list" where
  "dict_update d [] = d"
| "dict_update d ((k, v) # kvs) = dict_update (dict_set d k v) kvs"

record DiGraph =
  nx_node :: "(key \<times> (string \<times> attrval) list) list"
  nx_edges :: "(key \<times> key) list"

definition nx_DiGraph :: DiGraph where
  "nx_DiGraph = \<lparr>nx_node = [], nx_edges = []\<rparr>"

definition nx_keys :: "DiGraph \<Rightarrow> key list" where
  "nx_keys G = map fst (nx_node G)"

text \<open>\<^verbatim>\<open>G.add_node(n, **attr)\<close>: a new key gets the attributes, a known key is updated.\<close>

definition nx_add_node :: "DiGraph \<Rightarrow> key \<Rightarrow> (string \<times> attrval) list \<Rightarrow> DiGraph" where
  "nx_add_node G n attr =
     (case dict_get (nx_node G) n of
        None \<Rightarrow> G\<lparr>nx_node := nx_node G @ [(n, attr)]\<rparr>
      | Some old \<Rightarrow> G\<lparr>nx_node := dict_set (nx_node G) n (dict_update old attr)\<rparr>)"

text \<open>\<^verbatim>\<open>G.add_edge(u, v)\<close>: both ends become nodes if they are not; a known edge stays.\<close>

definition nx_add_edge :: "DiGraph \<Rightarrow> key \<Rightarrow> key \<Rightarrow> DiGraph" where
  "nx_add_edge G u v =
     (let G1 = (if u \<in> set (nx_keys G) then G else G\<lparr>nx_node := nx_node G @ [(u, [])]\<rparr>);
          G2 = (if v \<in> set (nx_keys G1) then G1 else G1\<lparr>nx_node := nx_node G1 @ [(v, [])]\<rparr>)
      in if (u, v) \<in> set (nx_edges G2) then G2 else G2\<lparr>nx_edges := nx_edges G2 @ [(u, v)]\<rparr>)"

text \<open>\<^verbatim>\<open>G.remove_edge(u, v)\<close> raises \<^verbatim>\<open>NetworkXError\<close> if there is no such edge.\<close>

definition nx_remove_edge :: "DiGraph \<Rightarrow> key \<Rightarrow> key \<Rightarrow> error + DiGraph" where
  "nx_remove_edge G u v =
     (if (u, v) \<in> set (nx_edges G) then Inr (G\<lparr>nx_edges := removeAll (u, v) (nx_edges G)\<rparr>)
      else Inl NetworkXError)"

definition nx_has_edge :: "DiGraph \<Rightarrow> key \<Rightarrow> key \<Rightarrow> bool" where
  "nx_has_edge G u v = ((u, v) \<in> set (nx_edges G))"

text \<open>
  \<^verbatim>\<open>nx.ancestors(G, source)\<close>: all nodes having a path to \<open>source\<close>, \<open>source\<close> itself
  excluded; \<^verbatim>\<open>NetworkXError\<close> if \<open>source\<close> is not in the graph.
\<close>

definition nx_ancestors :: "DiGraph \<Rightarrow> key \<Rightarrow> error + key set" where
  "nx_ancestors G src =
     (if src \<notin> set (nx_keys G) then Inl NetworkXError
      else Inr (fst ` Set.filter (\<lambda>e. snd e = src) ((set (nx_edges G))\<^sup>+) - {src}))"

text \<open>
  \<^verbatim>\<open>nx.topological_generations(G)\<close> is Kahn's algorithm: the first generation is the nodes of
  in-degree zero, in node order; each next one is the nodes all of whose predecessors are in
  the generations before. \<open>pending\<close> is the nodes not yet in a generation, \<open>seen\<close> those
  that are. When nodes are left over at the end, the graph has a cycle and the generator
  raises \<^verbatim>\<open>NetworkXUnfeasible\<close>; the source consumes the whole generator
  (\<^verbatim>\<open>list(enumerate(...))\<close>), so it meets that exception whenever there is one.
\<close>

definition zero_indegree :: "(key \<times> key) list \<Rightarrow> key list \<Rightarrow> key list \<Rightarrow> key list" where
  "zero_indegree es seen pending =
     filter (\<lambda>v. \<not> list_ex (\<lambda>e. snd e = v \<and> fst e \<notin> set seen) es) pending"

function generations :: "(key \<times> key) list \<Rightarrow> key list \<Rightarrow> key list \<Rightarrow> key list list" where
  "generations es seen pending =
     (let this_generation = zero_indegree es seen pending
      in if this_generation = [] then []
         else this_generation #
              generations es (seen @ this_generation)
                (filter (\<lambda>v. v \<notin> set this_generation) pending))"
  by pat_completeness auto
termination
proof (relation "measure (\<lambda>(es, seen, pending). length pending)")
  show "wf (measure (\<lambda>(es, seen, pending). length pending))"
    by simp
next
  fix es :: "(key \<times> key) list" and seen pending this_generation :: "key list"
  assume g: "this_generation = zero_indegree es seen pending" and ne: "this_generation \<noteq> []"
  from ne obtain x where x: "x \<in> set this_generation"
    by (cases this_generation) auto
  with g have "x \<in> set pending"
    by (simp add: zero_indegree_def)
  with x have "length (filter (\<lambda>v. v \<notin> set this_generation) pending) < length pending"
    by (intro length_filter_less) auto
  then show "((es, seen @ this_generation, filter (\<lambda>v. v \<notin> set this_generation) pending),
              (es, seen, pending)) \<in> measure (\<lambda>(es, seen, pending). length pending)"
    by simp
qed

declare generations.simps [simp del]

definition nx_topological_generations :: "DiGraph \<Rightarrow> error + key list list" where
  "nx_topological_generations G =
     (let gens = generations (nx_edges G) [] (nx_keys G)
      in if list_all (\<lambda>v. v \<in> set (concat gens)) (nx_keys G) then Inr gens
         else Inl NetworkXUnfeasible)"

section \<open>ConceptGraph\<close>

text \<open>
  The three attributes of a \<^verbatim>\<open>ConceptGraph\<close>, given by their contents: the two Python sets
  and the networkx graph over the \<^verbatim>\<open>id_networkx\<close> of the nodes.
\<close>

record ConceptGraph =
  nodes :: "ConceptNode list"
  edges :: "ConceptEdge list"
  graph :: DiGraph

text \<open>The values that the membership tests of the source are applied to.\<close>

datatype pyval = PStr string | PNode ConceptNode | PEdge ConceptEdge | PInt int

text \<open>
  \<^verbatim>\<open>x in self.graph\<close> is \<^verbatim>\<open>DiGraph.__contains__\<close>: a lookup of \<open>x\<close> among the node keys.
  A string or an integer is found if it is a key. A \<^verbatim>\<open>ConceptNode\<close> hashes like its
  \<^verbatim>\<open>id_networkx\<close>, but it is not equal to any key: \<^verbatim>\<open>ConceptNode.__eq__\<close> answers
  \<^verbatim>\<open>NotImplemented\<close> for a key, as do \<^verbatim>\<open>int\<close> and \<^verbatim>\<open>str\<close> for a node, and Python then
  compares by identity. The same holds for a \<^verbatim>\<open>ConceptEdge\<close>.
\<close>

fun DiGraph_contains :: "DiGraph \<Rightarrow> pyval \<Rightarrow> bool" where
  "DiGraph_contains G (PStr s) = (KStr s \<in> set (nx_keys G))"
| "DiGraph_contains G (PInt i) = (KInt i \<in> set (nx_keys G))"
| "DiGraph_contains G (PNode n) = False"
| "DiGraph_contains G (PEdge e) = False"

text \<open>\<^verbatim>\<open>str.split(sep)\<close> for a separator of one character.\<close>

fun py_split :: "char \<Rightarrow> string \<Rightarrow> string list" where
  "py_split sep [] = [[]]"
| "py_split sep (c # cs) =
     (if c = sep then [] # py_split sep cs
      else case py_split sep cs of
             [] \<Rightarrow> [[c]]
           | w # ws \<Rightarrow> (c # w) # ws)"

text \<open>
  \<^verbatim>\<open>__contains__\<close>. For a string the source evaluates \<^verbatim>\<open>self.graph.nodes.synset_name()\<close> or
  \<^verbatim>\<open>self.graph.nodes.descriptors()\<close>; \<^verbatim>\<open>self.graph.nodes\<close> is a networkx \<^verbatim>\<open>NodeView\<close>, which
  has neither attribute, so both branches raise \<^verbatim>\<open>AttributeError\<close>.
\<close>

fun ConceptGraph_contains :: "ConceptGraph \<Rightarrow> pyval \<Rightarrow> error + bool" where
  "ConceptGraph_contains self (PStr elem) =
     (let words = py_split CHR ''.'' elem
      in if length words = 3 then Inl AttributeError else Inl AttributeError)"
| "ConceptGraph_contains self (PNode elem) =
     Inr (pyset_contains ConceptNode_hash ConceptNode_eq (nodes self) elem \<and>
          DiGraph_contains (graph self) (PInt (id_networkx elem)))"
| "ConceptGraph_contains self (PEdge elem) =
     Inr (pyset_contains ConceptEdge_hash ConceptEdge_eq (edges self) elem \<and>
          nx_has_edge (graph self) (KInt (id_networkx (source elem)))
            (KInt (id_networkx (target elem))))"
| "ConceptGraph_contains self (PInt elem) = Inr False"

text \<open>
  \<^verbatim>\<open>valid_graph_node\<close>; the argument is a \<^verbatim>\<open>ConceptNode\<close> by typing. Both tests are written
  \<^verbatim>\<open>... in self.graph\<close>: they look the string up among the keys of the networkx graph.
\<close>

definition valid_graph_node :: "ConceptGraph \<Rightarrow> ConceptNode \<Rightarrow> error + bool" where
  "valid_graph_node self new_node =
     (if list_ex (\<lambda>descriptor. DiGraph_contains (graph self) (PStr descriptor))
           (descriptors new_node)
      then Inl DuplicateLabel
      else if DiGraph_contains (graph self) (PStr (synset_name new_node))
      then Inl DuplicateSense
      else Inr True)"

text \<open>\<^verbatim>\<open>new_node.__dict__\<close>, the attributes stored with the vertex.\<close>

definition node_dict :: "ConceptNode \<Rightarrow> (string \<times> attrval) list" where
  "node_dict n =
     [(''id_networkx'', AInt (id_networkx n)),
      (''descriptors'', AStrList (descriptors n)),
      (''synset_name'', AStr (synset_name n))]"

definition add_node :: "ConceptGraph \<Rightarrow> ConceptNode \<Rightarrow> ConceptGraph outcome" where
  "add_node self new_node =
     (case valid_graph_node self new_node of
        Inl e \<Rightarrow> Raised e self
      | Inr ok \<Rightarrow>
          if ok
          then Done (self\<lparr>graph := nx_add_node (graph self) (KInt (id_networkx new_node))
                                     (node_dict new_node),
                          nodes := pyset_add ConceptNode_hash ConceptNode_eq (nodes self) new_node\<rparr>)
          else Done self)"

text \<open>
  \<^verbatim>\<open>valid_graph_edge\<close>; the argument is a \<^verbatim>\<open>ConceptEdge\<close> by typing.
  \<^verbatim>\<open>hypernym_paths()[0]\<close> raises \<^verbatim>\<open>IndexError\<close> on an empty list.
\<close>

definition valid_graph_edge :: "Lexicon \<Rightarrow> ConceptGraph \<Rightarrow> ConceptEdge \<Rightarrow> error + bool" where
  "valid_graph_edge wn self new_edge =
     (case ConceptGraph_contains self (PNode (source new_edge)) of
        Inl e \<Rightarrow> Inl e
      | Inr has_source \<Rightarrow>
     if \<not> has_source then Inl NodeNotFound else
     (case ConceptGraph_contains self (PNode (target new_edge)) of
        Inl e \<Rightarrow> Inl e
      | Inr has_target \<Rightarrow>
     if \<not> has_target then Inl NodeNotFound else
     (case wn_synset wn (synset_name (target new_edge)) of
        None \<Rightarrow> Inl WordNetError
      | Some t \<Rightarrow>
     (case wn_hypernym_paths wn t of
        [] \<Rightarrow> Inl IndexError
      | targetNode_hypernym_synset_names # _ \<Rightarrow>
     if synset_name (source new_edge) \<notin> set targetNode_hypernym_synset_names
     then Inl NotAHypernym else
     (case nx_ancestors (graph self) (KInt (id_networkx (target new_edge))) of
        Inl e \<Rightarrow> Inl e
      | Inr above_target \<Rightarrow>
     if KInt (id_networkx (source new_edge)) \<in> above_target then Inl RedundantEdge else
     (case nx_ancestors (graph self) (KInt (id_networkx (source new_edge))) of
        Inl e \<Rightarrow> Inl e
      | Inr above_source \<Rightarrow>
     if KInt (id_networkx (target new_edge)) \<in> above_source then Inl CycleDetected
     else Inr True))))))"

text \<open>
  \<^verbatim>\<open>add_edge\<close>. The edge is put into the networkx graph first; the generations are then
  computed on the whole graph, and element 0 of their list is asked for (\<^verbatim>\<open>IndexError\<close> when
  there is none). Only the branch for more than one root takes the edge out again.
\<close>

definition add_edge :: "Lexicon \<Rightarrow> ConceptGraph \<Rightarrow> ConceptEdge \<Rightarrow> ConceptGraph outcome" where
  "add_edge wn self new_edge =
     (let u = KInt (id_networkx (source new_edge));
          v = KInt (id_networkx (target new_edge))
      in case valid_graph_edge wn self new_edge of
           Inl e \<Rightarrow> Raised e self
         | Inr ok \<Rightarrow>
             (let self1 = (if ok then self\<lparr>graph := nx_add_edge (graph self) u v\<rparr> else self)
              in (case nx_topological_generations (graph self1) of
                    Inl e \<Rightarrow> Raised e self1
                  | Inr gens \<Rightarrow>
                      (case gens of
                         [] \<Rightarrow> Raised IndexError self1
                       | roots # _ \<Rightarrow>
                           if length roots > 1
                           then (case nx_remove_edge (graph self1) u v of
                                   Inl e \<Rightarrow> Raised e self1
                                 | Inr G \<Rightarrow> Raised MultipleRoots (self1\<lparr>graph := G\<rparr>))
                           else Done (self1\<lparr>edges := pyset_add ConceptEdge_hash ConceptEdge_eq
                                                        (edges self1) new_edge\<rparr>)))))"


text \<open>
  \<^verbatim>\<open>add_descriptor_to_node\<close>. Its membership test is \<^verbatim>\<open>target_node not in self.graph\<close>, on
  the networkx graph. Past it, an exception of \<^verbatim>\<open>add_descriptor\<close> is printed, and the last
  statement calls \<^verbatim>\<open>.add(descriptor)\<close> on the stored attribute, which no attribute value
  has (\<^verbatim>\<open>KeyError\<close> when the vertex or the attribute is missing).
\<close>

definition add_descriptor_to_node ::
  "Lexicon \<Rightarrow> ConceptGraph \<Rightarrow> string \<Rightarrow> ConceptNode \<Rightarrow> ConceptGraph outcome" where
  "add_descriptor_to_node wn self descriptor target_node =
     (if \<not> DiGraph_contains (graph self) (PNode target_node) then Raised NodeNotFound self
      else let target_node1 = (case add_descriptor wn target_node descriptor of
                                 Inl e \<Rightarrow> target_node
                               | Inr n \<Rightarrow> n)
           in case dict_get (nx_node (graph self)) (KInt (id_networkx target_node1)) of
                None \<Rightarrow> Raised KeyError self
              | Some attr \<Rightarrow>
                  (case dict_get attr ''descriptors'' of
                     None \<Rightarrow> Raised KeyError self
                   | Some stored \<Rightarrow> Raised AttributeError self))"

section \<open>Default arguments and shared objects\<close>

text \<open>
  \<^verbatim>\<open>def __init__(self, nodes=set(), edges=set(), graph=nx.DiGraph())\<close>: the three default
  values are built once, when the class body is executed, and every call that leaves an
  argument out receives that same object. A graph object therefore holds three references
  into a store, and the defaults live at fixed addresses of it.
\<close>

record store =
  node_sets :: "nat \<Rightarrow> ConceptNode list"
  edge_sets :: "nat \<Rightarrow> ConceptEdge list"
  digraphs :: "nat \<Rightarrow> DiGraph"

record ConceptGraph_obj =
  nodes_ref :: nat
  edges_ref :: nat
  graph_ref :: nat

definition default_nodes :: nat where "default_nodes = 0"
definition default_edges :: nat where "default_edges = 0"
definition default_graph :: nat where "default_graph = 0"

definition ConceptGraph_init :: "nat option \<Rightarrow> nat option \<Rightarrow> nat option \<Rightarrow> ConceptGraph_obj" where
  "ConceptGraph_init nodes_arg edges_arg graph_arg =
     \<lparr>nodes_ref = (case nodes_arg of None \<Rightarrow> default_nodes | Some r \<Rightarrow> r),
      edges_ref = (case edges_arg of None \<Rightarrow> default_edges | Some r \<Rightarrow> r),
      graph_ref = (case graph_arg of None \<Rightarrow> default_graph | Some r \<Rightarrow> r)\<rparr>"

definition deref :: "store \<Rightarrow> ConceptGraph_obj \<Rightarrow> ConceptGraph" where
  "deref st obj =
     \<lparr>nodes = node_sets st (nodes_ref obj),
      edges = edge_sets st (edges_ref obj),
      graph = digraphs st (graph_ref obj)\<rparr>"

definition assign :: "store \<Rightarrow> ConceptGraph_obj \<Rightarrow> ConceptGraph \<Rightarrow> store" where
  "assign st obj g =
     st\<lparr>node_sets := (node_sets st)(nodes_ref obj := nodes g),
        edge_sets := (edge_sets st)(edges_ref obj := edges g),
        digraphs := (digraphs st)(graph_ref obj := graph g)\<rparr>"

definition obj_add_node :: "store \<Rightarrow> ConceptGraph_obj \<Rightarrow> ConceptNode \<Rightarrow> store outcome" where
  "obj_add_node st obj new_node =
     (case add_node (deref st obj) new_node of
        Done g \<Rightarrow> Done (assign st obj g)
      | Raised e g \<Rightarrow> Raised e (assign st obj g))"

definition obj_contains :: "store \<Rightarrow> ConceptGraph_obj \<Rightarrow> pyval \<Rightarrow> error + bool" where
  "obj_contains st obj elem = ConceptGraph_contains (deref st obj) elem"

section \<open>Sequences of operations\<close>

definition empty_graph :: ConceptGraph where
  "empty_graph = \<lparr>nodes = [], edges = [], graph = nx_DiGraph\<rparr>"

datatype operation = AddNode ConceptNode | AddEdge ConceptEdge

fun step :: "Lexicon \<Rightarrow> ConceptGraph \<Rightarrow> operation \<Rightarrow> ConceptGraph outcome" where
  "step wn g (AddNode n) = add_node g n"
| "step wn g (AddEdge e) = add_edge wn g e"

text \<open>The graph after a sequence of operations, \<open>None\<close> as soon as one of them raises.\<close>

fun run :: "Lexicon \<Rightarrow> ConceptGraph \<Rightarrow> operation list \<Rightarrow> ConceptGraph option" where
  "run wn g [] = Some g"
| "run wn g (x # xs) =
     (case step wn g x of
        Done g' \<Rightarrow> run wn g' xs
      | Raised e g' \<Rightarrow> None)"

fun is_AddEdge :: "operation \<Rightarrow> bool" where
  "is_AddEdge (AddEdge e) = True"
| "is_AddEdge (AddNode n) = False"

text \<open>The nodes of in-degree zero, in node order.\<close>

definition nx_in_degree :: "DiGraph \<Rightarrow> key \<Rightarrow> nat" where
  "nx_in_degree G v = length (filter (\<lambda>e. snd e = v) (nx_edges G))"

definition root_keys :: "DiGraph \<Rightarrow> key list" where
  "root_keys G = filter (\<lambda>v. nx_in_degree G v = 0) (nx_keys G)"

section \<open>A small lexicon and some nodes\<close>

text \<open>
  Four noun synsets in a chain of hypernyms below \<open>entity.n.01\<close>, with one or two words
  each; as in WordNet, a hypernym path runs from the root down to the synset itself.
\<close>

definition wn0 :: Lexicon where
  "wn0 =
     \<lparr>wn_synset = (\<lambda>name. if name \<in> set [''entity.n.01'', ''animal.n.01'', ''dog.n.01'', ''cat.n.01'']
                           then Some name else None),
      wn_synsets = (\<lambda>word.
         if word = ''entity'' then [''entity.n.01'']
         else if word = ''animal'' \<or> word = ''creature'' then [''animal.n.01'']
         else if word = ''dog'' \<or> word = ''domestic_dog'' then [''dog.n.01'']
         else if word = ''cat'' then [''cat.n.01'']
         else []),
      wn_pos = (\<lambda>s. ''n''),
      wn_hypernym_paths = (\<lambda>s.
         if s = ''entity.n.01'' then [[''entity.n.01'']]
         else if s = ''animal.n.01'' then [[''entity.n.01'', ''animal.n.01'']]
         else if s = ''dog.n.01'' then [[''entity.n.01'', ''animal.n.01'', ''dog.n.01'']]
         else if s = ''cat.n.01'' then [[''entity.n.01'', ''animal.n.01'', ''cat.n.01'']]
         else [])\<rparr>"

definition entity :: ConceptNode where
  "entity = \<lparr>id_networkx = 1, descriptors = [''entity''], synset_name = ''entity.n.01''\<rparr>"

definition animal :: ConceptNode where
  "animal = \<lparr>id_networkx = 2, descriptors = [''animal'', ''creature''], synset_name = ''animal.n.01''\<rparr>"

definition dog :: ConceptNode where
  "dog = \<lparr>id_networkx = 3, descriptors = [''dog''], synset_name = ''dog.n.01''\<rparr>"

definition dog_again :: ConceptNode where
  "dog_again = \<lparr>id_networkx = 4, descriptors = [''dog''], synset_name = ''dog.n.01''\<rparr>"

definition animal_reordered :: ConceptNode where
  "animal_reordered =
     \<lparr>id_networkx = 6, descriptors = [''creature'', ''animal''], synset_name = ''animal.n.01''\<rparr>"

text \<open>The graphs that \<^verbatim>\<open>add_node\<close> makes of the empty graph and one node.\<close>

definition dog_graph :: ConceptGraph where
  "dog_graph =
     \<lparr>nodes = [dog], edges = [],
      graph = \<lparr>nx_node = [(KInt 3, node_dict dog)], nx_edges = []\<rparr>\<rparr>"

definition entity_graph :: ConceptGraph where
  "entity_graph =
     \<lparr>nodes = [entity], edges = [],
      graph = \<lparr>nx_node = [(KInt 1, node_dict entity)], nx_edges = []\<rparr>\<rparr>"

definition cat :: ConceptNode where
  "cat = \<lparr>id_networkx = 5, descriptors = [''cat''], synset_name = ''cat.n.01''\<rparr>"


definition entity_animal_graph :: ConceptGraph where
  "entity_animal_graph =
     \<lparr>nodes = [entity, animal], edges = [],
      graph = \<lparr>nx_node = [(KInt 1, node_dict entity), (KInt 2, node_dict animal)],
               nx_edges = []\<rparr>\<rparr>"

definition entity_to_animal_graph :: ConceptGraph where
  "entity_to_animal_graph =
     \<lparr>nodes = [entity, animal], edges = [ConceptEdge_init entity animal None],
      graph = \<lparr>nx_node = [(KInt 1, node_dict entity), (KInt 2, node_dict animal)],
               nx_edges = [(KInt 1, KInt 2)]\<rparr>\<rparr>"

definition store0 :: store where
  "store0 = \<lparr>node_sets = (\<lambda>r. []), edge_sets = (\<lambda>r. []), digraphs = (\<lambda>r. nx_DiGraph)\<rparr>"

section \<open>Facts about the networkx model\<close>


lemma generations_Nil:
  "zero_indegree es seen pending = [] \<Longrightarrow> generations es seen pending = []"
  by (rule trans [OF generations.simps]) (simp add: Let_def)

lemma generations_Cons:
  "zero_indegree es seen pending \<noteq> [] \<Longrightarrow>
   generations es seen pending =
     zero_indegree es seen pending #
     generations es (seen @ zero_indegree es seen pending)
       (filter (\<lambda>v. v \<notin> set (zero_indegree es seen pending)) pending)"
  by (rule trans [OF generations.simps]) (simp add: Let_def)


lemma self_loop_not_zero_indegree:
  "(v, v) \<in> set es \<Longrightarrow> v \<notin> set seen \<Longrightarrow> v \<notin> set (zero_indegree es seen pending)"
  by (force simp: zero_indegree_def list_ex_iff)

lemma generations_self_loop:
  "(v, v) \<in> set es \<Longrightarrow> v \<notin> set seen \<Longrightarrow> v \<notin> set (concat (generations es seen pending))"
proof (induction es seen pending rule: generations.induct)
  case (1 es seen pending)
  let ?g = "zero_indegree es seen pending"
  show ?case
  proof (cases "?g = []")
    case True
    then show ?thesis
      by (simp add: generations_Nil)
  next
    case False
    have out: "v \<notin> set ?g"
      using "1.prems" by (rule self_loop_not_zero_indegree)
    with "1.prems" have "v \<notin> set (seen @ ?g)"
      by simp
    from "1.IH" [OF refl False "1.prems"(1) this]
    have "v \<notin> set (concat (generations es (seen @ ?g) (filter (\<lambda>w. w \<notin> set ?g) pending)))" .
    with out show ?thesis
      by (simp add: generations_Cons [OF False])
  qed
qed

lemma topological_generations_self_loop:
  assumes "(v, v) \<in> set (nx_edges G)" and "v \<in> set (nx_keys G)"
  shows "nx_topological_generations G = Inl NetworkXUnfeasible"
proof -
  have "v \<notin> set (concat (generations (nx_edges G) [] (nx_keys G)))"
    using assms(1) by (intro generations_self_loop) simp_all
  with assms(2) show ?thesis
    by (auto simp: nx_topological_generations_def Let_def list_all_iff)
qed

lemma first_generation:
  assumes "generations es [] ks = roots # rest"
  shows "roots = zero_indegree es [] ks"
proof (cases "zero_indegree es [] ks = []")
  case True
  with assms show ?thesis by (simp add: generations_Nil)
next
  case False
  with assms show ?thesis by (simp add: generations_Cons [OF False])
qed

lemma zero_indegree_root_keys: "zero_indegree (nx_edges G) [] (nx_keys G) = root_keys G"
  unfolding zero_indegree_def root_keys_def nx_in_degree_def
  by (rule filter_cong) (auto simp: list_ex_iff filter_empty_conv)

lemma topological_generations_roots:
  assumes "nx_topological_generations G = Inr (roots # rest)"
  shows "roots = root_keys G"
proof -
  from assms have "generations (nx_edges G) [] (nx_keys G) = roots # rest"
    by (simp add: nx_topological_generations_def Let_def split: if_splits)
  then show ?thesis
    by (simp add: first_generation zero_indegree_root_keys [symmetric])
qed

lemma nx_ancestors_iff:
  assumes "nx_ancestors G src = Inr A"
  shows "u \<in> A \<longleftrightarrow> u \<noteq> src \<and> (u, src) \<in> (set (nx_edges G))\<^sup>+"
proof -
  from assms have A: "A = fst ` Set.filter (\<lambda>e. snd e = src) ((set (nx_edges G))\<^sup>+) - {src}"
    by (simp add: nx_ancestors_def split: if_splits)
  show ?thesis
    unfolding A by force
qed

lemma nx_ancestors_keys: "nx_ancestors G src = Inr A \<Longrightarrow> src \<in> set (nx_keys G)"
  by (simp add: nx_ancestors_def split: if_splits)

section \<open>Facts about sets and add_node\<close>


lemma pyset_contains_add:
  "eq x x \<Longrightarrow> pyset_contains hash eq (pyset_add hash eq s x) x"
  by (auto simp: pyset_add_def pyset_contains_def list_ex_iff)

lemma dict_get_None_iff: "dict_get d k = None \<longleftrightarrow> k \<notin> fst ` set d"
  by (induction d) (auto split: if_splits)

lemma map_fst_dict_set: "dict_get d k = Some old \<Longrightarrow> map fst (dict_set d k v) = map fst d"
  by (induction d) (auto split: if_splits)

lemma nx_keys_add_node: "set (nx_keys (nx_add_node G n attr)) = insert n (set (nx_keys G))"
proof (cases "dict_get (nx_node G) n")
  case None
  then show ?thesis
    by (simp add: nx_add_node_def nx_keys_def)
next
  case (Some old)
  then have "n \<in> fst ` set (nx_node G)"
    using dict_get_None_iff [of "nx_node G" n] by auto
  with Some show ?thesis
    by (auto simp: nx_add_node_def nx_keys_def map_fst_dict_set)
qed

lemma nx_edges_add_node: "nx_edges (nx_add_node G n attr) = nx_edges G"
  by (simp add: nx_add_node_def split: option.splits)

lemma valid_graph_node_ok: "valid_graph_node g n = Inr ok \<Longrightarrow> ok"
  by (simp add: valid_graph_node_def split: if_splits)

lemma add_node_Done:
  assumes "add_node g n = Done g'"
  shows "g' = g\<lparr>graph := nx_add_node (graph g) (KInt (id_networkx n)) (node_dict n),
               nodes := pyset_add ConceptNode_hash ConceptNode_eq (nodes g) n\<rparr>"
  using assms
  by (auto simp: add_node_def split: sum.splits if_splits dest: valid_graph_node_ok)

lemma add_node_contains:
  assumes "add_node g n = Done g'"
  shows "ConceptGraph_contains g' (PNode n) = Inr True"
proof -
  note g' = add_node_Done [OF assms]
  have "pyset_contains ConceptNode_hash ConceptNode_eq (nodes g') n"
    unfolding g' by (simp add: pyset_contains_add ConceptNode_eq_def)
  moreover have "KInt (id_networkx n) \<in> set (nx_keys (graph g'))"
    unfolding g' by (simp add: nx_keys_add_node)
  ultimately show ?thesis
    by simp
qed

section \<open>Facts about add_edge\<close>


lemma valid_graph_edge_ok: "valid_graph_edge wn g e = Inr ok \<Longrightarrow> ok"
  by (simp add: valid_graph_edge_def split: sum.splits if_splits option.splits list.splits)

lemma ConceptGraph_contains_node_key:
  "ConceptGraph_contains g (PNode n) = Inr True \<Longrightarrow> KInt (id_networkx n) \<in> set (nx_keys (graph g))"
  by simp

lemma valid_graph_edge_facts:
  assumes "valid_graph_edge wn g e = Inr ok"
  defines "u \<equiv> KInt (id_networkx (source e))" and "v \<equiv> KInt (id_networkx (target e))"
  shows "u \<in> set (nx_keys (graph g))" and "v \<in> set (nx_keys (graph g))"
    and "u = v \<or> (u, v) \<notin> (set (nx_edges (graph g)))\<^sup>+"
    and "u = v \<or> (v, u) \<notin> (set (nx_edges (graph g)))\<^sup>+"
proof -
  from assms(1) obtain A B where
    s: "ConceptGraph_contains g (PNode (source e)) = Inr True" and
    t: "ConceptGraph_contains g (PNode (target e)) = Inr True" and
    A: "nx_ancestors (graph g) v = Inr A" "u \<notin> A" and
    B: "nx_ancestors (graph g) u = Inr B" "v \<notin> B"
    unfolding valid_graph_edge_def u_def v_def
    by (auto split: sum.splits if_splits option.splits list.splits)
  from s show "u \<in> set (nx_keys (graph g))"
    unfolding u_def by (rule ConceptGraph_contains_node_key)
  from t show "v \<in> set (nx_keys (graph g))"
    unfolding v_def by (rule ConceptGraph_contains_node_key)
  from A show "u = v \<or> (u, v) \<notin> (set (nx_edges (graph g)))\<^sup>+"
    by (auto simp: nx_ancestors_iff)
  from B show "u = v \<or> (v, u) \<notin> (set (nx_edges (graph g)))\<^sup>+"
    by (auto simp: nx_ancestors_iff)
qed

lemma nx_add_edge_known_nodes:
  assumes "u \<in> set (nx_keys G)" and "v \<in> set (nx_keys G)"
  shows "nx_add_edge G u v =
           (if (u, v) \<in> set (nx_edges G) then G else G\<lparr>nx_edges := nx_edges G @ [(u, v)]\<rparr>)"
  using assms by (simp add: nx_add_edge_def)

lemma nx_add_edge_has_edge: "(u, v) \<in> set (nx_edges (nx_add_edge G u v))"
  by (simp add: nx_add_edge_def Let_def)



text \<open>What a call of \<^verbatim>\<open>add_edge\<close> that passed the validation went through.\<close>

lemma add_edge_valid:
  assumes "valid_graph_edge wn g e = Inr ok"
  defines "u \<equiv> KInt (id_networkx (source e))" and "v \<equiv> KInt (id_networkx (target e))"
  defines "g1 \<equiv> g\<lparr>graph := nx_add_edge (graph g) u v\<rparr>"
  shows "add_edge wn g e =
           (case nx_topological_generations (graph g1) of
              Inl err \<Rightarrow> Raised err g1
            | Inr gens \<Rightarrow>
                (case gens of
                   [] \<Rightarrow> Raised IndexError g1
                 | roots # _ \<Rightarrow>
                     if length roots > 1
                     then (case nx_remove_edge (graph g1) u v of
                             Inl err \<Rightarrow> Raised err g1
                           | Inr G \<Rightarrow> Raised MultipleRoots (g1\<lparr>graph := G\<rparr>))
                     else Done (g1\<lparr>edges := pyset_add ConceptEdge_hash ConceptEdge_eq
                                                (edges g1) e\<rparr>)))"
  using assms(1) valid_graph_edge_ok [OF assms(1)]
  unfolding add_edge_def Let_def u_def v_def g1_def
  by simp

text \<open>
  When the generations of the graph with the new edge exist, the edge is no self-loop and
  was not there before.
\<close>

lemma new_edge_fresh:
  assumes val: "valid_graph_edge wn g e = Inr ok"
      and gens: "nx_topological_generations
                   (nx_add_edge (graph g) (KInt (id_networkx (source e)))
                      (KInt (id_networkx (target e)))) = Inr gs"
  shows "KInt (id_networkx (source e)) \<noteq> KInt (id_networkx (target e))"
    and "(KInt (id_networkx (source e)), KInt (id_networkx (target e))) \<notin> set (nx_edges (graph g))"
    and "nx_add_edge (graph g) (KInt (id_networkx (source e))) (KInt (id_networkx (target e))) =
           (graph g)\<lparr>nx_edges := nx_edges (graph g) @
              [(KInt (id_networkx (source e)), KInt (id_networkx (target e)))]\<rparr>"
proof -
  let ?u = "KInt (id_networkx (source e))" and ?v = "KInt (id_networkx (target e))"
  note f = valid_graph_edge_facts [OF val]
  note ae = nx_add_edge_known_nodes [OF f(1) f(2)]
  show ne: "?u \<noteq> ?v"
  proof
    assume eq: "?u = ?v"
    have "(?u, ?u) \<in> set (nx_edges (nx_add_edge (graph g) ?u ?v))"
      using nx_add_edge_has_edge [of ?u ?v "graph g"] eq by simp
    moreover have "?u \<in> set (nx_keys (nx_add_edge (graph g) ?u ?v))"
      using f(1) by (simp add: ae nx_keys_def)
    ultimately have "nx_topological_generations (nx_add_edge (graph g) ?u ?v) =
                     Inl NetworkXUnfeasible"
      by (rule topological_generations_self_loop)
    with gens show False
      by simp
  qed
  with f(3) have "(?u, ?v) \<notin> (set (nx_edges (graph g)))\<^sup>+"
    by simp
  then show old: "(?u, ?v) \<notin> set (nx_edges (graph g))"
    by auto
  then show "nx_add_edge (graph g) ?u ?v = (graph g)\<lparr>nx_edges := nx_edges (graph g) @ [(?u, ?v)]\<rparr>"
    by (simp add: ae)
qed


lemma add_edge_Done:
  assumes "add_edge wn g e = Done g'"
  shows "nodes g' = nodes g"
    and "graph g' = (graph g)\<lparr>nx_edges := nx_edges (graph g) @
              [(KInt (id_networkx (source e)), KInt (id_networkx (target e)))]\<rparr>"
    and "KInt (id_networkx (source e)) \<noteq> KInt (id_networkx (target e))"
    and "(KInt (id_networkx (target e)), KInt (id_networkx (source e)))
           \<notin> (set (nx_edges (graph g)))\<^sup>+"
    and "length (root_keys (graph g')) \<le> 1"
proof -
  let ?u = "KInt (id_networkx (source e))" and ?v = "KInt (id_networkx (target e))"
  let ?g1 = "g\<lparr>graph := nx_add_edge (graph g) ?u ?v\<rparr>"
  from assms obtain ok where val: "valid_graph_edge wn g e = Inr ok"
    by (cases "valid_graph_edge wn g e") (auto simp: add_edge_def Let_def)
  note run = add_edge_valid [OF val]
  from assms run obtain roots rest where
    gens: "nx_topological_generations (graph ?g1) = Inr (roots # rest)" and
    len: "length roots \<le> 1" and
    g': "g' = ?g1\<lparr>edges := pyset_add ConceptEdge_hash ConceptEdge_eq (edges ?g1) e\<rparr>"
    by (auto split: list.splits if_splits sum.splits)
  from gens have gens': "nx_topological_generations (nx_add_edge (graph g) ?u ?v) = Inr (roots # rest)"
    by simp
  note fresh = new_edge_fresh [OF val gens']
  show "nodes g' = nodes g"
    by (simp add: g')
  show "graph g' = (graph g)\<lparr>nx_edges := nx_edges (graph g) @ [(?u, ?v)]\<rparr>"
    by (simp add: g' fresh(3))
  show "?u \<noteq> ?v"
    by (rule fresh(1))
  with valid_graph_edge_facts(4) [OF val] show "(?v, ?u) \<notin> (set (nx_edges (graph g)))\<^sup>+"
    by simp
  from topological_generations_roots [OF gens] len show "length (root_keys (graph g')) \<le> 1"
    by (simp add: g')
qed

section \<open>Facts about sequences of operations\<close>

lemma add_node_edges: "add_node g n = Done g' \<Longrightarrow> nx_edges (graph g') = nx_edges (graph g)"
  by (drule add_node_Done) (simp add: nx_edges_add_node)

lemma add_edge_acyclic:
  assumes "add_edge wn g e = Done g'" and "acyclic (set (nx_edges (graph g)))"
  shows "acyclic (set (nx_edges (graph g')))"
proof -
  let ?u = "KInt (id_networkx (source e))" and ?v = "KInt (id_networkx (target e))"
  note d = add_edge_Done [OF assms(1)]
  from d(3,4) have "(?v, ?u) \<notin> (set (nx_edges (graph g)))\<^sup>*"
    by (auto simp: rtrancl_eq_or_trancl)
  with assms(2) have "acyclic (insert (?u, ?v) (set (nx_edges (graph g))))"
    by simp
  then show ?thesis
    by (simp add: d(2))
qed

lemma step_acyclic:
  assumes "step wn g x = Done g'" and "acyclic (set (nx_edges (graph g)))"
  shows "acyclic (set (nx_edges (graph g')))"
proof (cases x)
  case (AddNode n)
  with assms show ?thesis
    by (simp add: add_node_edges)
next
  case (AddEdge e)
  with assms show ?thesis
    by (auto intro: add_edge_acyclic)
qed

lemma run_acyclic:
  "run wn g ops = Some g' \<Longrightarrow> acyclic (set (nx_edges (graph g))) \<Longrightarrow>
   acyclic (set (nx_edges (graph g')))"
proof (induction ops arbitrary: g)
  case Nil
  then show ?case by simp
next
  case (Cons x xs)
  from Cons.prems(1) obtain g1 where s: "step wn g x = Done g1" and r: "run wn g1 xs = Some g'"
    by (auto split: outcome.splits)
  from s Cons.prems(2) have "acyclic (set (nx_edges (graph g1)))"
    by (rule step_acyclic)
  with r show ?case
    by (rule Cons.IH)
qed

lemma run_last:
  "run wn g ops = Some g' \<Longrightarrow> ops \<noteq> [] \<Longrightarrow> \<exists>g1. step wn g1 (last ops) = Done g'"
proof (induction ops arbitrary: g)
  case Nil
  then show ?case by simp
next
  case (Cons x xs)
  from Cons.prems(1) obtain g1 where s: "step wn g x = Done g1" and r: "run wn g1 xs = Some g'"
    by (auto split: outcome.splits)
  show ?case
  proof (cases "xs = []")
    case True
    with s r show ?thesis by auto
  next
    case False
    with Cons.IH [OF r] show ?thesis by simp
  qed
qed

section \<open>Facts about labels, edge equality and add_descriptor_to_node\<close>

lemma add_descriptor_present:
  "descriptor \<in> set (descriptors self) \<Longrightarrow> add_descriptor wn self descriptor = Inr self"
  by (simp add: add_descriptor_def)

lemma add_descriptor_not_synonymous:
  assumes "descriptor \<notin> set (descriptors self)"
      and "wn_synset wn (synset_name self) = Some s"
      and "s \<notin> set (wn_synsets wn descriptor)"
  shows "add_descriptor wn self descriptor = Inl NotSynonymous"
  using assms by (simp add: add_descriptor_def valid_add_descriptor_def)

lemma add_descriptor_never_appends:
  "add_descriptor wn self descriptor = Inr n \<Longrightarrow> n = self"
  by (auto simp: add_descriptor_def valid_add_descriptor_def
      split: if_splits sum.splits option.splits)

lemma ConceptEdge_eq_no_label: "label self = None \<Longrightarrow> ConceptEdge_eq self other"
  by (simp add: ConceptEdge_eq_def)

lemma ConceptEdge_eq_with_label:
  "label self \<noteq> None \<Longrightarrow>
   ConceptEdge_eq self other \<longleftrightarrow>
     ConceptNode_eq (source self) (source other) \<and>
     ConceptNode_eq (target self) (target other) \<and>
     label self = label other"
  by (simp add: ConceptEdge_eq_def)

lemma add_descriptor_to_node_always_raises:
  "add_descriptor_to_node wn g descriptor n = Raised NodeNotFound g"
  by (simp add: add_descriptor_to_node_def)

lemma valid_graph_node_integer_keys:
  assumes "list_all (\<lambda>k. case k of KInt i \<Rightarrow> True | KStr s \<Rightarrow> False) (nx_keys (graph g))"
  shows "valid_graph_node g n = Inr True"
proof -
  have "KStr s \<notin> set (nx_keys (graph g))" for s
    using assms by (auto simp: list_all_iff)
  then show ?thesis
    by (simp add: valid_graph_node_def list_ex_iff)
qed

section \<open>The claims\<close>

text \<open>
  C1. The claim: \<^verbatim>\<open>add_node\<close> of a Concept that shares a label or a sense with a node of the
  graph fails with \<open>DuplicateLabel\<close> or \<open>DuplicateSense\<close> and leaves the graph unchanged.
  The code at such an input: \<open>dog_again\<close> has the label and the sense of \<open>dog\<close>, which is
  in \<open>dog_graph\<close>; \<^verbatim>\<open>valid_graph_node\<close> looks the strings up among the integer keys of the
  networkx graph, finds none, and \<^verbatim>\<open>add_node\<close> inserts the second node.
\<close>

theorem add_node_accepts_duplicate_label:
  "add_node empty_graph dog = Done dog_graph \<and>
   add_node dog_graph dog_again =
     Done \<lparr>nodes = [dog, dog_again], edges = [],
           graph = \<lparr>nx_node = [(KInt 3, node_dict dog), (KInt 4, node_dict dog_again)],
                    nx_edges = []\<rparr>\<rparr>"
  by code_simp

text \<open>
  C3. The claim: whenever \<^verbatim>\<open>add_edge\<close> fails, the edge set and the backing structure are as
  before the call. The code at an edge from a node to itself: every check of
  \<^verbatim>\<open>valid_graph_edge\<close> passes (a node is on its own hypernym path and is not its own
  ancestor), the edge is put into the networkx graph, \<^verbatim>\<open>topological_generations\<close> raises
  \<^verbatim>\<open>NetworkXUnfeasible\<close>, and the self-loop stays in the backing structure.
\<close>

theorem add_edge_self_loop_stays:
  "add_node empty_graph entity = Done entity_graph \<and>
   add_edge wn0 entity_graph (ConceptEdge_init entity entity None) =
     Raised NetworkXUnfeasible
       (entity_graph\<lparr>graph := \<lparr>nx_node = [(KInt 1, node_dict entity)],
                               nx_edges = [(KInt 1, KInt 1)]\<rparr>\<rparr>)"
  by code_simp

text \<open>
  C4. The claim: two Relations are equal iff source, target and label are equal, also when
  both have no label. The code on two edges without label and with different end points:
  \<^verbatim>\<open>__eq__\<close> answers \<open>True\<close>.
\<close>

theorem ConceptEdge_eq_without_label:
  "ConceptEdge_eq (ConceptEdge_init entity animal None) (ConceptEdge_init dog entity None)"
  by (simp add: ConceptEdge_eq_def ConceptEdge_init_def)

text \<open>
  C6. The claim: for a Concept that is a member of the graph, \<^verbatim>\<open>add_descriptor_to_node\<close>
  does not fail with \<open>NodeNotFound\<close>. The code for \<open>dog\<close>, a member of \<open>dog_graph\<close>, and a
  synonym of its sense: the test \<^verbatim>\<open>target_node not in self.graph\<close> looks the node object up
  among the keys of the networkx graph, and the method raises.
\<close>

theorem add_descriptor_to_node_member_not_found:
  "ConceptGraph_contains dog_graph (PNode dog) = Inr True \<and>
   add_descriptor_to_node wn0 dog_graph ''domestic_dog'' dog = Raised NodeNotFound dog_graph"
  by code_simp

text \<open>
  C8. The claim: \<^verbatim>\<open>add_descriptor\<close> does nothing for a label that is present, fails with
  \<open>NotSynonymous\<close> for a label that is no synonym, and appends the label otherwise. The code
  for a label that is absent and a synonym: \<^verbatim>\<open>self.descriptors.add\<close> on a list raises
  \<^verbatim>\<open>AttributeError\<close>, nothing is appended.
\<close>

theorem add_descriptor_synonym_raises:
  "''domestic_dog'' \<notin> set (descriptors dog) \<and>
   valid_add_descriptor wn0 dog ''domestic_dog'' = Inr True \<and>
   add_descriptor wn0 dog ''domestic_dog'' = Inl AttributeError"
  by code_simp

text \<open>
  C9. The claim: for a string, \<^verbatim>\<open>__contains__\<close> returns a boolean and never raises. The
  code: for every graph and every string it raises \<^verbatim>\<open>AttributeError\<close>.
\<close>

theorem ConceptGraph_contains_string_raises:
  "ConceptGraph_contains g (PStr s) = Inl AttributeError"
  by simp

text \<open>
  C10. Two graphs constructed with no arguments hold the same three references (the default
  objects of \<^verbatim>\<open>__init__\<close>): in every store, after \<^verbatim>\<open>add_node(c)\<close> has succeeded on the
  first, \<^verbatim>\<open>c in\<close> the second is true.
\<close>

theorem default_graphs_share:
  assumes "g1 = ConceptGraph_init None None None"
      and "g2 = ConceptGraph_init None None None"
      and "obj_add_node st g1 c = Done st'"
  shows "nodes_ref g1 = nodes_ref g2 \<and> edges_ref g1 = edges_ref g2 \<and>
         graph_ref g1 = graph_ref g2 \<and> obj_contains st' g2 (PNode c) = Inr True"
proof -
  from assms(3) obtain g' where a: "add_node (deref st g1) c = Done g'"
    and st': "st' = assign st g1 g'"
    by (auto simp: obj_add_node_def split: outcome.splits)
  have "deref st' g2 = g'"
    unfolding st' assms(1,2) by (simp add: deref_def assign_def)
  with add_node_contains [OF a] show ?thesis
    by (simp add: obj_contains_def assms(1,2))
qed

theorem default_graphs_share_witness:
  "obj_add_node store0 (ConceptGraph_init None None None) dog =
     Done (assign store0 (ConceptGraph_init None None None) dog_graph) \<and>
   obj_contains (assign store0 (ConceptGraph_init None None None) dog_graph)
     (ConceptGraph_init None None None) (PNode dog) = Inr True"
proof -
  have h: "obj_add_node store0 (ConceptGraph_init None None None) dog =
           Done (assign store0 (ConceptGraph_init None None None) dog_graph)"
    by (simp add: obj_add_node_def deref_def store0_def ConceptGraph_init_def add_node_def
        valid_graph_node_def nx_DiGraph_def nx_keys_def dog_def dog_graph_def nx_add_node_def
        pyset_add_def pyset_contains_def node_dict_def)
  from default_graphs_share [OF refl refl h] h show ?thesis
    by simp
qed

text \<open>
  C5. The claim: two Concepts with the same set of labels and the same sense are equal
  whatever their ids, and where one is in the node set of a graph, so is the other. The
  code on \<open>dog\<close> and \<open>dog_again\<close>, two nodes with the same labels and sense and the ids
  3 and 4: \<^verbatim>\<open>__eq__\<close> finds them equal, but \<^verbatim>\<open>__hash__\<close> is the hash of the id, and the
  node set that holds \<open>dog\<close> does not find \<open>dog_again\<close>. And \<^verbatim>\<open>__eq__\<close> compares the
  label lists: \<open>animal\<close> and \<open>animal_reordered\<close> have the same set of labels and are
  not equal.
\<close>

theorem equal_Concept_not_in_node_set:
  "set (descriptors dog) = set (descriptors dog_again) \<and>
   synset_name dog = synset_name dog_again \<and>
   ConceptNode_eq dog dog_again \<and>
   pyset_contains ConceptNode_hash ConceptNode_eq (nodes dog_graph) dog \<and>
   \<not> pyset_contains ConceptNode_hash ConceptNode_eq (nodes dog_graph) dog_again \<and>
   set (descriptors animal) = set (descriptors animal_reordered) \<and>
   synset_name animal = synset_name animal_reordered \<and>
   \<not> ConceptNode_eq animal animal_reordered"
  by code_simp




text \<open>
  C2. The claim: every graph reached from the empty one by successful \<^verbatim>\<open>add_node\<close> and
  \<^verbatim>\<open>add_edge\<close> calls is acyclic and has at most one node of in-degree zero. \<^verbatim>\<open>add_node\<close>
  has no test on the roots: after two of them the graph has two.
\<close>

theorem two_roots_counterexample:
  "run wn0 empty_graph [AddNode entity, AddNode animal] = Some entity_animal_graph \<and>
   root_keys (graph entity_animal_graph) = [KInt 1, KInt 2] \<and>
   \<not> length (root_keys (graph entity_animal_graph)) \<le> 1"
  by code_simp

text \<open>
  C2, amended. Every graph reached from the empty one by successful \<^verbatim>\<open>add_node\<close> and
  \<^verbatim>\<open>add_edge\<close> calls has an acyclic backing structure; and when the last call was an
  \<^verbatim>\<open>add_edge\<close>, the backing structure has at most one node of in-degree zero.
\<close>

theorem reachable_acyclic_root_after_add_edge:
  assumes "run wn empty_graph ops = Some g"
  shows "acyclic (set (nx_edges (graph g))) \<and>
         (ops \<noteq> [] \<and> is_AddEdge (last ops) \<longrightarrow> length (root_keys (graph g)) \<le> 1)"
proof (intro conjI impI)
  have "acyclic (set (nx_edges (graph empty_graph)))"
    by (simp add: empty_graph_def nx_DiGraph_def acyclic_def)
  with assms show "acyclic (set (nx_edges (graph g)))"
    by (rule run_acyclic)
next
  assume l: "ops \<noteq> [] \<and> is_AddEdge (last ops)"
  with run_last [OF assms] obtain g1 where s: "step wn g1 (last ops) = Done g"
    by blast
  from l obtain e where "last ops = AddEdge e"
    by (cases "last ops") auto
  with s have "add_edge wn g1 e = Done g"
    by simp
  then show "length (root_keys (graph g)) \<le> 1"
    by (rule add_edge_Done(5))
qed

theorem reachable_acyclic_root_after_add_edge_witness:
  "run wn0 empty_graph [AddNode entity, AddNode animal, AddEdge (ConceptEdge_init entity animal None)] =
     Some entity_to_animal_graph \<and>
   acyclic (set (nx_edges (graph entity_to_animal_graph))) \<and>
   length (root_keys (graph entity_to_animal_graph)) \<le> 1"
proof -
  have r: "run wn0 empty_graph
             [AddNode entity, AddNode animal, AddEdge (ConceptEdge_init entity animal None)] =
           Some entity_to_animal_graph"
    by code_simp
  from reachable_acyclic_root_after_add_edge [OF r] r show ?thesis
    by simp
qed

end
